theory Spec2Isabelle
  imports Complex_Main "HOL-Library.Sublist"
begin

section \<open>JavaScript numbers\<close>

text \<open>
  Every \<^verbatim>\<open>number\<close> of the monitor is a JavaScript number, an IEEE 754 double. A finite
  one is modelled by the rational it denotes; the three non-finite values are
  constructors of their own. The sign of zero is not modelled: \<open>Fin 0\<close> is \<^verbatim>\<open>+0\<close>. An
  absent optional number (\<^verbatim>\<open>undefined\<close>) behaves as \<^verbatim>\<open>NaN\<close> in every numeric context the
  monitor uses (\<^verbatim>\<open>>=\<close>, \<^verbatim>\<open>||\<close>, \<^verbatim>\<open>Math.max\<close>, arithmetic) and is represented by \<open>NaN\<close>.

  The operations \<open>js_add\<close>, \<open>js_sub\<close>, \<open>js_mul\<close> and \<open>js_div\<close> below give the exact
  result on finite numbers and the IEEE result on the others. What the program computes
  is that result rounded to the nearest double (\<open>fl_add\<close>, \<open>fl_sub\<close>, \<open>fl_mul\<close>,
  \<open>fl_div\<close> further down).
\<close>

datatype jsnum = Fin rat | PInf | NInf | NaN

fun js_neg :: "jsnum \<Rightarrow> jsnum" where
  "js_neg (Fin a) = Fin (- a)"
| "js_neg PInf = NInf"
| "js_neg NInf = PInf"
| "js_neg NaN = NaN"

fun js_add :: "jsnum \<Rightarrow> jsnum \<Rightarrow> jsnum" where
  "js_add NaN _ = NaN"
| "js_add _ NaN = NaN"
| "js_add (Fin a) (Fin b) = Fin (a + b)"
| "js_add PInf NInf = NaN"
| "js_add NInf PInf = NaN"
| "js_add PInf _ = PInf"
| "js_add _ PInf = PInf"
| "js_add NInf _ = NInf"
| "js_add _ NInf = NInf"

definition js_sub :: "jsnum \<Rightarrow> jsnum \<Rightarrow> jsnum" where
  "js_sub a b = js_add a (js_neg b)"

fun js_mul :: "jsnum \<Rightarrow> jsnum \<Rightarrow> jsnum" where
  "js_mul NaN _ = NaN"
| "js_mul _ NaN = NaN"
| "js_mul (Fin a) (Fin b) = Fin (a * b)"
| "js_mul (Fin a) PInf = (if a = 0 then NaN else if 0 < a then PInf else NInf)"
| "js_mul (Fin a) NInf = (if a = 0 then NaN else if 0 < a then NInf else PInf)"
| "js_mul PInf (Fin b) = (if b = 0 then NaN else if 0 < b then PInf else NInf)"
| "js_mul NInf (Fin b) = (if b = 0 then NaN else if 0 < b then NInf else PInf)"
| "js_mul PInf PInf = PInf"
| "js_mul PInf NInf = NInf"
| "js_mul NInf PInf = NInf"
| "js_mul NInf NInf = PInf"

fun js_div :: "jsnum \<Rightarrow> jsnum \<Rightarrow> jsnum" where
  "js_div NaN _ = NaN"
| "js_div _ NaN = NaN"
| "js_div (Fin a) (Fin b) =
     (if b \<noteq> 0 then Fin (a / b)
      else if a = 0 then NaN else if 0 < a then PInf else NInf)"
| "js_div (Fin a) PInf = Fin 0"
| "js_div (Fin a) NInf = Fin 0"
| "js_div PInf (Fin b) = (if 0 \<le> b then PInf else NInf)"
| "js_div NInf (Fin b) = (if 0 \<le> b then NInf else PInf)"
| "js_div PInf PInf = NaN"
| "js_div PInf NInf = NaN"
| "js_div NInf PInf = NaN"
| "js_div NInf NInf = NaN"

text \<open>\<^verbatim>\<open>Math.round\<close>: the nearest integer, a tie going up (towards \<open>+\<infinity>\<close>).\<close>

fun js_round :: "jsnum \<Rightarrow> jsnum" where
  "js_round (Fin a) = Fin (of_int \<lfloor>a + 1 / 2\<rfloor>)"
| "js_round PInf = PInf"
| "js_round NInf = NInf"
| "js_round NaN = NaN"

fun js_abs :: "jsnum \<Rightarrow> jsnum" where
  "js_abs (Fin a) = Fin \<bar>a\<bar>"
| "js_abs PInf = PInf"
| "js_abs NInf = PInf"
| "js_abs NaN = NaN"

text \<open>Comparisons: any comparison with \<^verbatim>\<open>NaN\<close> is false.\<close>

fun js_le :: "jsnum \<Rightarrow> jsnum \<Rightarrow> bool" where
  "js_le NaN _ = False"
| "js_le _ NaN = False"
| "js_le (Fin a) (Fin b) = (a \<le> b)"
| "js_le NInf _ = True"
| "js_le _ PInf = True"
| "js_le _ _ = False"

fun js_lt :: "jsnum \<Rightarrow> jsnum \<Rightarrow> bool" where
  "js_lt NaN _ = False"
| "js_lt _ NaN = False"
| "js_lt (Fin a) (Fin b) = (a < b)"
| "js_lt PInf _ = False"
| "js_lt _ NInf = False"
| "js_lt _ _ = True"

definition js_ge :: "jsnum \<Rightarrow> jsnum \<Rightarrow> bool" where
  "js_ge a b = js_le b a"

definition js_gt :: "jsnum \<Rightarrow> jsnum \<Rightarrow> bool" where
  "js_gt a b = js_lt b a"

text \<open>\<^verbatim>\<open>Math.max\<close> of two numbers: \<^verbatim>\<open>NaN\<close> as soon as one argument is.\<close>

fun js_max :: "jsnum \<Rightarrow> jsnum \<Rightarrow> jsnum" where
  "js_max NaN _ = NaN"
| "js_max _ NaN = NaN"
| "js_max a b = (if js_le b a then a else b)"

text \<open>\<^verbatim>\<open>a || b\<close> on numbers: \<^verbatim>\<open>0\<close> and \<^verbatim>\<open>NaN\<close> (and \<^verbatim>\<open>undefined\<close>) are falsy.\<close>

definition js_or :: "jsnum \<Rightarrow> jsnum \<Rightarrow> jsnum" where
  "js_or a b = (if a = Fin 0 \<or> a = NaN then b else a)"

subsection \<open>Rounding to a double\<close>

text \<open>\<open>pow2 k\<close> is \<open>2\<^sup>k\<close> for an integer \<open>k\<close>.\<close>

definition pow2 :: "int \<Rightarrow> rat" where
  "pow2 k = (if 0 \<le> k then 2 ^ nat k else 1 / 2 ^ nat (- k))"

text \<open>The binary exponent of a positive rational: \<open>2\<^sup>e \<le> x < 2\<^sup>e\<^sup>+\<^sup>1\<close>.\<close>

function ilog2 :: "rat \<Rightarrow> int" where
  "ilog2 x = (if x \<le> 0 then 0
              else if 2 \<le> x then ilog2 (x / 2) + 1
              else if x < 1 then ilog2 (x * 2) - 1
              else 0)"
  by pat_completeness auto
termination
proof (relation "measure (\<lambda>x. if 1 \<le> x then nat \<lfloor>x\<rfloor> else nat \<lceil>1 / x\<rceil> + 1)")
  show "wf (measure (\<lambda>x::rat. if 1 \<le> x then nat \<lfloor>x\<rfloor> else nat \<lceil>1 / x\<rceil> + 1))" by simp
next
  fix x :: rat
  assume "\<not> x \<le> 0" and x2: "2 \<le> x"
  have "\<lfloor>x / 2\<rfloor> < \<lfloor>x\<rfloor>"
  proof -
    have "x / 2 < of_int \<lfloor>x\<rfloor>"
    proof -
      have "2 \<le> \<lfloor>x\<rfloor>" using x2 by (simp add: le_floor_iff)
      then have "(2::rat) \<le> of_int \<lfloor>x\<rfloor>" by (metis of_int_le_iff of_int_numeral)
      moreover have "x < of_int \<lfloor>x\<rfloor> + 1" by linarith
      ultimately show ?thesis by linarith
    qed
    then show ?thesis by (simp add: floor_less_iff)
  qed
  moreover have "0 \<le> \<lfloor>x / 2\<rfloor>" using x2 by simp
  ultimately have "nat \<lfloor>x / 2\<rfloor> < nat \<lfloor>x\<rfloor>" by linarith
  then show "(x / 2, x) \<in> measure (\<lambda>x. if 1 \<le> x then nat \<lfloor>x\<rfloor> else nat \<lceil>1 / x\<rceil> + 1)"
    using x2 by simp
next
  fix x :: rat
  assume pos: "\<not> x \<le> 0" and "\<not> 2 \<le> x" and x1: "x < 1"
  have y: "1 < 1 / x" using pos x1 by (simp add: field_simps)
  then have c2: "2 \<le> \<lceil>1 / x\<rceil>" by (simp add: le_ceiling_iff)
  show "(x * 2, x) \<in> measure (\<lambda>x. if 1 \<le> x then nat \<lfloor>x\<rfloor> else nat \<lceil>1 / x\<rceil> + 1)"
  proof (cases "1 \<le> x * 2")
    case True
    have "\<lfloor>x * 2\<rfloor> < 2" using x1 by (simp add: floor_less_iff)
    with c2 have "nat \<lfloor>x * 2\<rfloor> < nat \<lceil>1 / x\<rceil> + 1" by linarith
    with True x1 show ?thesis by simp
  next
    case False
    then have "2 \<le> 1 / x" using pos by (simp add: field_simps)
    then have "1 / (x * 2) \<le> 1 / x - 1" using pos by (simp add: field_simps)
    then have "\<lceil>1 / (x * 2)\<rceil> \<le> \<lceil>1 / x - 1\<rceil>" by (rule ceiling_mono)
    then have "\<lceil>1 / (x * 2)\<rceil> < \<lceil>1 / x\<rceil>" by simp
    moreover have "0 < \<lceil>1 / (x * 2)\<rceil>" using pos by (simp add: field_simps)
    ultimately have "nat \<lceil>1 / (x * 2)\<rceil> + 1 < nat \<lceil>1 / x\<rceil> + 1" by linarith
    with False x1 show ?thesis by simp
  qed
qed

declare ilog2.simps [simp del]

text \<open>The nearest integer, a tie going to the even one.\<close>

definition rne :: "rat \<Rightarrow> int" where
  "rne y = (let f = \<lfloor>y\<rfloor>; r = y - of_int f
            in if r < 1 / 2 then f
               else if 1 / 2 < r then f + 1
               else if even f then f else f + 1)"

text \<open>
  The double nearest to a rational (round to nearest, ties to even): a multiple of
  \<open>2\<^sup>q\<close>, where \<open>q\<close> leaves 53 bits for the significand and is at least \<open>-1074\<close> (the
  subnormal numbers); a result of magnitude \<open>2\<^sup>1\<^sup>0\<^sup>2\<^sup>4\<close> or more is infinite.
\<close>

definition double_of :: "rat \<Rightarrow> jsnum" where
  "double_of x =
     (if x = 0 then Fin 0
      else
        let q = max (ilog2 \<bar>x\<bar> - 52) (- 1074);
            v = of_int (rne (x / pow2 q)) * pow2 q
        in if 1024 \<le> ilog2 \<bar>v\<bar> then (if 0 < x then PInf else NInf) else Fin v)"

fun fl :: "jsnum \<Rightarrow> jsnum" where
  "fl (Fin x) = double_of x"
| "fl PInf = PInf"
| "fl NInf = NInf"
| "fl NaN = NaN"

text \<open>The four operations of the program: \<^verbatim>\<open>a + b\<close>, \<^verbatim>\<open>a - b\<close>, \<^verbatim>\<open>a * b\<close>, \<^verbatim>\<open>a / b\<close>.\<close>

definition fl_add :: "jsnum \<Rightarrow> jsnum \<Rightarrow> jsnum" where
  "fl_add a b = fl (js_add a b)"

definition fl_sub :: "jsnum \<Rightarrow> jsnum \<Rightarrow> jsnum" where
  "fl_sub a b = fl (js_sub a b)"

definition fl_mul :: "jsnum \<Rightarrow> jsnum \<Rightarrow> jsnum" where
  "fl_mul a b = fl (js_mul a b)"

definition fl_div :: "jsnum \<Rightarrow> jsnum \<Rightarrow> jsnum" where
  "fl_div a b = fl (js_div a b)"

text \<open>\<^verbatim>\<open>xs.reduce((a, b) => a + b, 0)\<close>.\<close>

definition fl_sum :: "jsnum list \<Rightarrow> jsnum" where
  "fl_sum xs = foldl fl_add (Fin 0) xs"

text \<open>\<^verbatim>\<open>xs.slice(-n)\<close>: the last \<open>n\<close> elements, all of them when there are fewer.\<close>

definition slice_last :: "nat \<Rightarrow> 'a list \<Rightarrow> 'a list" where
  "slice_last n xs = drop (length xs - n) xs"

section \<open>Data model\<close>

record cpu_metrics =
  cpu_usage :: jsnum
  cpu_cores :: nat
  cpu_temperature :: "jsnum option"
  cpu_loadAverage :: "jsnum list option"

record memory_metrics =
  mem_usage :: jsnum
  mem_total :: jsnum
  mem_used :: jsnum
  mem_free :: jsnum
  mem_available :: jsnum

record disk_device =
  dev_name :: string
  dev_usage :: jsnum
  dev_total :: jsnum
  dev_used :: jsnum
  dev_free :: jsnum

record disk_metrics =
  disk_usage :: jsnum
  disk_total :: jsnum
  disk_used :: jsnum
  disk_free :: jsnum
  disk_devices :: "disk_device list"

record net_interface =
  if_name :: string
  bytesReceived :: jsnum
  bytesSent :: jsnum
  packetsReceived :: jsnum
  packetsSent :: jsnum

record network_metrics =
  interfaces :: "net_interface list"

text \<open>\<^verbatim>\<open>SystemMetrics\<close>; the timestamp is a \<^verbatim>\<open>Date.now()\<close> reading, in milliseconds.\<close>

record SystemMetrics =
  timestamp :: int
  cpu :: cpu_metrics
  memory :: memory_metrics
  disk :: disk_metrics
  network :: network_metrics

datatype severity = Warning | Critical | Emergency

text \<open>
  \<^verbatim>\<open>Alert\<close>. The \<^verbatim>\<open>id\<close> (metric, clock and a random suffix) and the \<^verbatim>\<open>message\<close> (a text
  with the value printed into it) are strings that nothing reads back; they are left out.
\<close>

record Alert =
  alert_timestamp :: int
  alert_severity :: severity
  alert_metric :: string
  alert_value :: jsnum
  alert_threshold :: jsnum
  alert_resolved :: bool

text \<open>
  The configuration after \<^verbatim>\<open>mergeDefaultConfig\<close>. The fields that no method of the class
  reads (\<^verbatim>\<open>logLevel\<close>, \<^verbatim>\<open>environment\<close>, and of \<^verbatim>\<open>alerts\<close> the cooldown, the hourly
  maximum and the escalation flag) are left out.
\<close>

record thresholds =
  warning :: jsnum
  critical :: jsnum
  emergency :: jsnum

record family_config =
  fam_enabled :: bool
  fam_interval :: jsnum
  fam_thresholds :: thresholds
  fam_retention :: jsnum

record metrics_config =
  cfg_cpu :: family_config
  cfg_memory :: family_config
  cfg_disk :: family_config
  cfg_network :: family_config

record SystemMonitorConfig =
  cfg_interval :: jsnum
  cfg_enabled :: bool
  cfg_debug :: bool
  cfg_metrics :: metrics_config
  cfg_alerts_enabled :: bool

text \<open>The \<^verbatim>\<open>defaultConfig\<close> of \<^verbatim>\<open>mergeDefaultConfig\<close>.\<close>

definition defaultConfig :: SystemMonitorConfig where
  "defaultConfig = \<lparr>
     cfg_interval = Fin 5000, cfg_enabled = True, cfg_debug = False,
     cfg_metrics = \<lparr>
       cfg_cpu = \<lparr>fam_enabled = True, fam_interval = Fin 5000,
         fam_thresholds = \<lparr>warning = Fin 70, critical = Fin 85, emergency = Fin 95\<rparr>,
         fam_retention = Fin 7\<rparr>,
       cfg_memory = \<lparr>fam_enabled = True, fam_interval = Fin 5000,
         fam_thresholds = \<lparr>warning = Fin 80, critical = Fin 90, emergency = Fin 95\<rparr>,
         fam_retention = Fin 7\<rparr>,
       cfg_disk = \<lparr>fam_enabled = True, fam_interval = Fin 10000,
         fam_thresholds = \<lparr>warning = Fin 80, critical = Fin 90, emergency = Fin 95\<rparr>,
         fam_retention = Fin 7\<rparr>,
       cfg_network = \<lparr>fam_enabled = True, fam_interval = Fin 5000,
         fam_thresholds = \<lparr>warning = Fin 1000, critical = Fin 2000, emergency = Fin 5000\<rparr>,
         fam_retention = Fin 7\<rparr>\<rparr>,
     cfg_alerts_enabled = True\<rparr>"

section \<open>The metric provider\<close>

text \<open>
  What the \<^verbatim>\<open>systeminformation\<close> calls resolve to. A call that rejects is \<open>Inl\<close> of
  the cause; one record of type \<open>provider\<close> holds the outcome of each call of one tick.
\<close>

record si_load =
  currentLoad :: jsnum
  cpus :: "jsnum list"
  loadavg :: "jsnum list option"

record si_mem =
  si_total :: jsnum
  si_used :: jsnum
  si_free :: jsnum
  si_available :: jsnum

record si_fs =
  fs_mount :: string
  fs_size :: jsnum
  fs_used :: jsnum
  fs_available :: jsnum

record si_net =
  iface :: string
  rx_bytes :: jsnum
  tx_bytes :: jsnum
  rx_sec :: jsnum
  tx_sec :: jsnum

record provider =
  p_currentLoad :: "string + si_load"
  p_cpuCurrentSpeed :: "string + unit"
  p_cpuTemperature :: "string + jsnum"
  p_mem :: "string + si_mem"
  p_fsSize :: "string + si_fs list"
  p_networkStats :: "string + si_net list"

section \<open>Monitor state and events\<close>

datatype event =
    EvStarted
  | EvStopped
  | EvMetrics SystemMetrics
  | EvMetricsCollected SystemMetrics
  | EvAlert Alert
  | EvError string
  | EvConfigUpdated SystemMonitorConfig

text \<open>
  The fields of the class. \<open>intervalId\<close> tells whether the timer is set. Each method
  returns the new state with the events it emitted, in order.

  The class extends Node's \<^verbatim>\<open>EventEmitter\<close>. Of the emitter's own state the model keeps
  what decides the control flow: \<open>errorListener\<close>, whether a listener for \<^verbatim>\<open>error\<close> is
  registered. \<^verbatim>\<open>emit('error', e)\<close> calls the listeners when there is one and \<^bold>\<open>throws\<close>
  \<^verbatim>\<open>e\<close> when there is none; every other \<^verbatim>\<open>emit\<close> returns normally with or without
  listeners. A fresh monitor has no listener; \<^verbatim>\<open>monitor.on('error', f)\<close> registers one.
  The listeners themselves are the caller's code and are taken to return.
\<close>

record SystemMonitor =
  isRunning :: bool
  intervalId :: bool
  config :: SystemMonitorConfig
  startTime :: int
  metrics :: "SystemMetrics list"
  alerts :: "Alert list"
  lastNetworkStats :: "si_net list"
  errorListener :: bool

definition new_monitor :: "SystemMonitorConfig \<Rightarrow> SystemMonitor" where
  "new_monitor cfg = \<lparr>isRunning = False, intervalId = False, config = cfg,
     startTime = 0, metrics = [], alerts = [], lastNetworkStats = [],
     errorListener = False\<rparr>"

definition on_error :: "SystemMonitor \<Rightarrow> SystemMonitor" where
  "on_error st = st\<lparr>errorListener := True\<rparr>"

text \<open>
  \<^verbatim>\<open>this.emit('error', e)\<close>: the event when a listener is registered, \<open>Inl\<close> of the thrown
  error when not.
\<close>

definition emit_error :: "SystemMonitor \<Rightarrow> string \<Rightarrow> string + event list" where
  "emit_error st e = (if errorListener st then Inr [EvError e] else Inl e)"

section \<open>Metric collector\<close>

definition zero_cpu :: cpu_metrics where
  "zero_cpu = \<lparr>cpu_usage = Fin 0, cpu_cores = 0, cpu_temperature = None,
     cpu_loadAverage = None\<rparr>"

definition zero_memory :: memory_metrics where
  "zero_memory = \<lparr>mem_usage = Fin 0, mem_total = Fin 0, mem_used = Fin 0,
     mem_free = Fin 0, mem_available = Fin 0\<rparr>"

definition zero_disk :: disk_metrics where
  "zero_disk = \<lparr>disk_usage = Fin 0, disk_total = Fin 0, disk_used = Fin 0,
     disk_free = Fin 0, disk_devices = []\<rparr>"

definition zero_network :: network_metrics where
  "zero_network = \<lparr>interfaces = []\<rparr>"

text \<open>
  The \<^verbatim>\<open>catch\<close> block of a getter: emit the error, then return the zero-value record.
  When the emit throws, the getter rejects and returns nothing.
\<close>

definition fallback :: "SystemMonitor \<Rightarrow> string \<Rightarrow> 'a \<Rightarrow> string + 'a \<times> event list" where
  "fallback st msg zero =
     (case emit_error st msg of Inl e \<Rightarrow> Inl e | Inr evs \<Rightarrow> Inr (zero, evs))"

text \<open>
  \<^verbatim>\<open>getCpuMetrics\<close>. \<^verbatim>\<open>Promise.all\<close> rejects when the load or the speed call rejects;
  the temperature call has its own \<^verbatim>\<open>catch\<close> and yields \<^verbatim>\<open>null\<close> then. A getter returns
  \<open>Inr\<close> of its record and the events it emitted, or \<open>Inl\<close> of the error it rejects with.
\<close>

definition getCpuMetrics ::
  "SystemMonitor \<Rightarrow> provider \<Rightarrow> string + cpu_metrics \<times> event list" where
  "getCpuMetrics st p =
     (if \<not> fam_enabled (cfg_cpu (cfg_metrics (config st))) then Inr (zero_cpu, [])
      else case p_currentLoad p of
        Inl e \<Rightarrow> fallback st (''Failed to get CPU metrics: '' @ e) zero_cpu
      | Inr c \<Rightarrow>
          (case p_cpuCurrentSpeed p of
             Inl e \<Rightarrow> fallback st (''Failed to get CPU metrics: '' @ e) zero_cpu
           | Inr _ \<Rightarrow>
               Inr (\<lparr>cpu_usage = js_round (currentLoad c),
                     cpu_cores = length (cpus c),
                     cpu_temperature =
                       (case p_cpuTemperature p of
                          Inl _ \<Rightarrow> None
                        | Inr t \<Rightarrow> if t = Fin 0 \<or> t = NaN then None else Some t),
                     cpu_loadAverage =
                       (case loadavg c of None \<Rightarrow> Some [] | Some l \<Rightarrow> Some l)\<rparr>, [])))"

definition getMemoryMetrics ::
  "SystemMonitor \<Rightarrow> provider \<Rightarrow> string + memory_metrics \<times> event list" where
  "getMemoryMetrics st p =
     (if \<not> fam_enabled (cfg_memory (cfg_metrics (config st))) then Inr (zero_memory, [])
      else case p_mem p of
        Inl e \<Rightarrow> fallback st (''Failed to get memory metrics: '' @ e) zero_memory
      | Inr mem \<Rightarrow>
          Inr (\<lparr>mem_usage = js_round (fl_mul (fl_div (si_used mem) (si_total mem)) (Fin 100)),
                mem_total = si_total mem,
                mem_used = si_used mem,
                mem_free = si_free mem,
                mem_available = si_available mem\<rparr>, []))"

definition disk_device_of :: "si_fs \<Rightarrow> disk_device" where
  "disk_device_of fs = \<lparr>
     dev_name = fs_mount fs,
     dev_usage = (if js_gt (fs_size fs) (Fin 0)
                  then js_round (fl_mul (fl_div (fs_used fs) (fs_size fs)) (Fin 100))
                  else Fin 0),
     dev_total = fs_size fs,
     dev_used = fs_used fs,
     dev_free = fs_available fs\<rparr>"

definition getDiskMetrics ::
  "SystemMonitor \<Rightarrow> provider \<Rightarrow> string + disk_metrics \<times> event list" where
  "getDiskMetrics st p =
     (if \<not> fam_enabled (cfg_disk (cfg_metrics (config st))) then Inr (zero_disk, [])
      else case p_fsSize p of
        Inl e \<Rightarrow> fallback st (''Failed to get disk metrics: '' @ e) zero_disk
      | Inr fsSize \<Rightarrow>
          (let totalSize = fl_sum (map fs_size fsSize);
               totalUsed = fl_sum (map fs_used fsSize);
               totalFree = fl_sum (map fs_available fsSize)
           in Inr (\<lparr>disk_usage = (if js_gt totalSize (Fin 0)
                                   then js_round (fl_mul (fl_div totalUsed totalSize) (Fin 100))
                                   else Fin 0),
                     disk_total = totalSize,
                     disk_used = totalUsed,
                     disk_free = totalFree,
                     disk_devices = map disk_device_of fsSize\<rparr>, [])))"

definition net_interface_of :: "si_net \<Rightarrow> net_interface" where
  "net_interface_of i = \<lparr>
     if_name = iface i,
     bytesReceived = js_or (rx_bytes i) (Fin 0),
     bytesSent = js_or (tx_bytes i) (Fin 0),
     packetsReceived = js_or (rx_sec i) (Fin 0),
     packetsSent = js_or (tx_sec i) (Fin 0)\<rparr>"

text \<open>
  \<^verbatim>\<open>getNetworkMetrics\<close> also stores the raw statistics in \<^verbatim>\<open>lastNetworkStats\<close>, when the
  call succeeds.
\<close>

definition getNetworkMetrics ::
  "provider \<Rightarrow> SystemMonitor \<Rightarrow> (string + network_metrics \<times> event list) \<times> SystemMonitor" where
  "getNetworkMetrics p st =
     (if \<not> fam_enabled (cfg_network (cfg_metrics (config st))) then (Inr (zero_network, []), st)
      else case p_networkStats p of
        Inl e \<Rightarrow> (fallback st (''Failed to get network metrics: '' @ e) zero_network, st)
      | Inr networkStats \<Rightarrow>
          (Inr (\<lparr>interfaces = map net_interface_of networkStats\<rparr>, []),
           st\<lparr>lastNetworkStats := networkStats\<rparr>))"

section \<open>Alert evaluator\<close>

definition createAlert :: "int \<Rightarrow> string \<Rightarrow> jsnum \<Rightarrow> jsnum \<Rightarrow> severity \<Rightarrow> Alert" where
  "createAlert now metric v threshold sev = \<lparr>
     alert_timestamp = now, alert_severity = sev, alert_metric = metric,
     alert_value = v, alert_threshold = threshold, alert_resolved = False\<rparr>"

text \<open>
  The \<^verbatim>\<open>if\<close>/\<^verbatim>\<open>else if\<close> chain that \<^verbatim>\<open>checkAlerts\<close> writes out once per family:
  emergency first, then critical, then warning.
\<close>

definition family_alerts :: "int \<Rightarrow> string \<Rightarrow> family_config \<Rightarrow> jsnum \<Rightarrow> Alert list" where
  "family_alerts now metric fc u =
     (if \<not> fam_enabled fc then []
      else if js_ge u (emergency (fam_thresholds fc))
        then [createAlert now metric u (emergency (fam_thresholds fc)) Emergency]
      else if js_ge u (critical (fam_thresholds fc))
        then [createAlert now metric u (critical (fam_thresholds fc)) Critical]
      else if js_ge u (warning (fam_thresholds fc))
        then [createAlert now metric u (warning (fam_thresholds fc)) Warning]
      else [])"

text \<open>The local array \<^verbatim>\<open>alerts\<close> of \<^verbatim>\<open>checkAlerts\<close>: cpu, then memory, then disk.\<close>

definition new_alerts :: "SystemMonitorConfig \<Rightarrow> int \<Rightarrow> SystemMetrics \<Rightarrow> Alert list" where
  "new_alerts cfg now m =
     family_alerts now ''cpu'' (cfg_cpu (cfg_metrics cfg)) (cpu_usage (cpu m))
     @ family_alerts now ''memory'' (cfg_memory (cfg_metrics cfg)) (mem_usage (memory m))
     @ family_alerts now ''disk'' (cfg_disk (cfg_metrics cfg)) (disk_usage (disk m))"

definition checkAlerts :: "int \<Rightarrow> SystemMetrics \<Rightarrow> SystemMonitor \<Rightarrow> event list \<times> SystemMonitor" where
  "checkAlerts now m st =
     (let new = new_alerts (config st) now m
      in (map EvAlert new, st\<lparr>alerts := alerts st @ new\<rparr>))"

section \<open>Metric store\<close>

definition maxRetention :: "SystemMonitorConfig \<Rightarrow> jsnum" where
  "maxRetention cfg =
     js_max (js_or (fam_retention (cfg_cpu (cfg_metrics cfg))) (Fin 7))
       (js_max (js_or (fam_retention (cfg_memory (cfg_metrics cfg))) (Fin 7))
          (js_max (js_or (fam_retention (cfg_disk (cfg_metrics cfg))) (Fin 7))
                  (js_or (fam_retention (cfg_network (cfg_metrics cfg))) (Fin 7))))"

text \<open>
  The two cutoffs. They are computed from a clock reading in whole milliseconds and a
  retention in days; on whole numbers of this size double arithmetic is exact, and the
  cutoffs are written with the exact operations. (The rounding of the products of a
  fractional retention is not modelled.)
\<close>

definition cutoffTime :: "SystemMonitorConfig \<Rightarrow> int \<Rightarrow> jsnum" where
  "cutoffTime cfg now =
     js_sub (Fin (of_int now))
       (js_mul (js_mul (js_mul (js_mul (maxRetention cfg) (Fin 24)) (Fin 60)) (Fin 60)) (Fin 1000))"

definition alertCutoffTime :: "int \<Rightarrow> jsnum" where
  "alertCutoffTime now = js_sub (Fin (of_int now)) (Fin (30 * 24 * 60 * 60 * 1000))"

text \<open>
  \<^verbatim>\<open>cleanupOldMetrics\<close> reads the clock twice: \<open>now\<^sub>m\<close> for the snapshots, \<open>now\<^sub>a\<close> for
  the alerts.
\<close>

definition cleanupOldMetrics :: "int \<Rightarrow> int \<Rightarrow> SystemMonitor \<Rightarrow> SystemMonitor" where
  "cleanupOldMetrics now\<^sub>m now\<^sub>a st =
     st\<lparr>metrics :=
          filter (\<lambda>m. js_gt (Fin (of_int (timestamp m))) (cutoffTime (config st) now\<^sub>m))
            (metrics st),
        alerts :=
          filter (\<lambda>a. js_gt (Fin (of_int (alert_timestamp a))) (alertCutoffTime now\<^sub>a))
            (alerts st)\<rparr>"

record timeRange =
  range_from :: jsnum
  range_to :: jsnum

definition getMetrics :: "SystemMonitor \<Rightarrow> timeRange option \<Rightarrow> SystemMetrics list" where
  "getMetrics st r =
     (case r of
        None \<Rightarrow> metrics st
      | Some tr \<Rightarrow>
          filter (\<lambda>m. js_ge (Fin (of_int (timestamp m))) (range_from tr)
                    \<and> js_le (Fin (of_int (timestamp m))) (range_to tr))
            (metrics st))"

definition getAlerts :: "SystemMonitor \<Rightarrow> Alert list" where
  "getAlerts st = alerts st"

section \<open>One tick\<close>

text \<open>
  The clock readings of one tick: the snapshot's timestamp, the two readings of
  \<^verbatim>\<open>cleanupOldMetrics\<close>, and the reading that stamps the alerts.
\<close>

record tick_clock =
  t_stamp :: int
  t_cut_metrics :: int
  t_cut_alerts :: int
  t_alert :: int

text \<open>
  The \<^verbatim>\<open>catch\<close> block of \<^verbatim>\<open>collectMetrics\<close> (and of the timer callback): emit the error
  caught. The first component of the result tells how the call ended: \<open>Inr ()\<close> when it
  returned, \<open>Inl e\<close> when it rejected with \<open>e\<close>.
\<close>

definition catch_emit ::
  "SystemMonitor \<Rightarrow> event list \<Rightarrow> string \<Rightarrow> (string + unit) \<times> event list \<times> SystemMonitor" where
  "catch_emit st evs e =
     (case emit_error st e of
        Inl e' \<Rightarrow> (Inl e', evs, st)
      | Inr ev \<Rightarrow> (Inr (), evs @ ev, st))"

text \<open>
  \<^verbatim>\<open>collectMetrics\<close>. The four getters are awaited in turn, inside one \<^verbatim>\<open>try\<close>: when one
  of them rejects, the ones after it are not called, nothing is stored and the \<^verbatim>\<open>catch\<close>
  block runs.
\<close>

definition collectMetrics ::
  "tick_clock \<Rightarrow> provider \<Rightarrow> SystemMonitor \<Rightarrow> (string + unit) \<times> event list \<times> SystemMonitor" where
  "collectMetrics clk p st =
     (if \<not> isRunning st then (Inr (), [], st)
      else case getCpuMetrics st p of
        Inl e \<Rightarrow> catch_emit st [] e
      | Inr (c, ev\<^sub>c) \<Rightarrow>
      (case getMemoryMetrics st p of
        Inl e \<Rightarrow> catch_emit st ev\<^sub>c e
      | Inr (m, ev\<^sub>m) \<Rightarrow>
      (case getDiskMetrics st p of
        Inl e \<Rightarrow> catch_emit st (ev\<^sub>c @ ev\<^sub>m) e
      | Inr (d, ev\<^sub>d) \<Rightarrow>
      (case getNetworkMetrics p st of
        (Inl e, st1) \<Rightarrow> catch_emit st1 (ev\<^sub>c @ ev\<^sub>m @ ev\<^sub>d) e
      | (Inr (n, ev\<^sub>n), st1) \<Rightarrow>
          let snap = \<lparr>timestamp = t_stamp clk, cpu = c, memory = m, disk = d, network = n\<rparr>;
              st2 = st1\<lparr>metrics := metrics st1 @ [snap]\<rparr>;
              st3 = cleanupOldMetrics (t_cut_metrics clk) (t_cut_alerts clk) st2;
              (ev\<^sub>a, st4) = (if cfg_alerts_enabled (config st3)
                            then checkAlerts (t_alert clk) snap st3 else ([], st3))
          in (Inr (),
              ev\<^sub>c @ ev\<^sub>m @ ev\<^sub>d @ ev\<^sub>n @ ev\<^sub>a @ [EvMetrics snap, EvMetricsCollected snap],
              st4)))))"

text \<open>The callback of the timer that \<^verbatim>\<open>start\<close> sets: one tick.\<close>

definition interval_callback ::
  "tick_clock \<Rightarrow> provider \<Rightarrow> SystemMonitor \<Rightarrow> (string + unit) \<times> event list \<times> SystemMonitor" where
  "interval_callback clk p st =
     (case collectMetrics clk p st of
        (Inl e, evs, st') \<Rightarrow> catch_emit st' evs e
      | (Inr u, evs, st') \<Rightarrow> (Inr u, evs, st'))"

section \<open>Lifecycle\<close>

text \<open>
  \<^verbatim>\<open>start\<close> primes \<^verbatim>\<open>lastNetworkStats\<close> when the network family is enabled (a failing
  call leaves the empty array) and sets the timer.
\<close>

definition start :: "int \<Rightarrow> provider \<Rightarrow> SystemMonitor \<Rightarrow> event list \<times> SystemMonitor" where
  "start now p st =
     (if isRunning st then ([], st)
      else
        let st1 = st\<lparr>startTime := now, isRunning := True\<rparr>;
            st2 = (if fam_enabled (cfg_network (cfg_metrics (config st1)))
                   then st1\<lparr>lastNetworkStats :=
                          (case p_networkStats p of Inl _ \<Rightarrow> [] | Inr s \<Rightarrow> s)\<rparr>
                   else st1)
        in ([EvStarted], st2\<lparr>intervalId := True\<rparr>))"

definition stop :: "SystemMonitor \<Rightarrow> event list \<times> SystemMonitor" where
  "stop st =
     (if \<not> isRunning st then ([], st)
      else ([EvStopped], st\<lparr>isRunning := False, intervalId := False\<rparr>))"

datatype lifecycle = Stopped | Running

definition lifecycle_of :: "SystemMonitor \<Rightarrow> lifecycle" where
  "lifecycle_of st = (if isRunning st then Running else Stopped)"

section \<open>Analyzer\<close>

datatype health = Healthy | Degraded | Unhealthy

datatype trend = Increasing | Decreasing | Stable

text \<open>
  The three averages every summary function computes from \<^verbatim>\<open>recentMetrics\<close>:
  \<^verbatim>\<open>recentMetrics.reduce((sum, m) => sum + m.cpu.usage, 0) / recentMetrics.length\<close>.
\<close>

definition avgCpu :: "SystemMetrics list \<Rightarrow> jsnum" where
  "avgCpu recent =
     fl_div (foldl (\<lambda>sum m. fl_add sum (cpu_usage (cpu m))) (Fin 0) recent)
            (Fin (of_nat (length recent)))"

definition avgMemory :: "SystemMetrics list \<Rightarrow> jsnum" where
  "avgMemory recent =
     fl_div (foldl (\<lambda>sum m. fl_add sum (mem_usage (memory m))) (Fin 0) recent)
            (Fin (of_nat (length recent)))"

definition avgDisk :: "SystemMetrics list \<Rightarrow> jsnum" where
  "avgDisk recent =
     fl_div (foldl (\<lambda>sum m. fl_add sum (disk_usage (disk m))) (Fin 0) recent)
            (Fin (of_nat (length recent)))"

definition calculateOverallHealth :: "SystemMonitor \<Rightarrow> health" where
  "calculateOverallHealth st =
     (let recent = slice_last 5 (metrics st)
      in if length recent = 0 then Healthy
         else if js_ge (avgCpu recent) (Fin 90) \<or> js_ge (avgMemory recent) (Fin 95)
                 \<or> js_ge (avgDisk recent) (Fin 95) then Unhealthy
         else if js_ge (avgCpu recent) (Fin 80) \<or> js_ge (avgMemory recent) (Fin 85)
                 \<or> js_ge (avgDisk recent) (Fin 85) then Degraded
         else Healthy)"

definition calculateHealthScore :: "SystemMonitor \<Rightarrow> jsnum" where
  "calculateHealthScore st =
     (let recent = slice_last 5 (metrics st)
      in if length recent = 0 then Fin 100
         else
           let cpuScore = js_max (Fin 0) (fl_sub (Fin 100) (avgCpu recent));
               memoryScore = js_max (Fin 0) (fl_sub (Fin 100) (avgMemory recent));
               diskScore = js_max (Fin 0) (fl_sub (Fin 100) (avgDisk recent))
           in js_round (fl_div (fl_add (fl_add cpuScore memoryScore) diskScore) (Fin 3)))"

definition identifyKeyIssues :: "SystemMonitor \<Rightarrow> string list" where
  "identifyKeyIssues st =
     (let recent = slice_last 5 (metrics st)
      in if length recent = 0 then []
         else (if js_ge (avgCpu recent) (Fin 80) then [''High CPU usage detected''] else [])
            @ (if js_ge (avgMemory recent) (Fin 85) then [''High memory usage detected''] else [])
            @ (if js_ge (avgDisk recent) (Fin 85) then [''High disk usage detected''] else []))"

definition generateRecommendations :: "SystemMonitor \<Rightarrow> string list" where
  "generateRecommendations st =
     (let recent = slice_last 5 (metrics st)
      in if length recent = 0 then []
         else (if js_ge (avgCpu recent) (Fin 80)
               then [''Consider optimizing CPU-intensive processes''] else [])
            @ (if js_ge (avgMemory recent) (Fin 85)
               then [''Consider increasing memory or optimizing memory usage''] else [])
            @ (if js_ge (avgDisk recent) (Fin 85)
               then [''Consider cleaning up disk space or expanding storage''] else []))"

definition calculateTrend :: "jsnum list \<Rightarrow> trend" where
  "calculateTrend values =
     (if length values < 2 then Stable
      else
        let firstHalf = take (length values div 2) values;
            secondHalf = drop (length values div 2) values;
            firstAvg = fl_div (fl_sum firstHalf) (Fin (of_nat (length firstHalf)));
            secondAvg = fl_div (fl_sum secondHalf) (Fin (of_nat (length secondHalf)));
            diff = fl_sub secondAvg firstAvg
        in if js_lt (js_abs diff) (Fin 5) then Stable
           else if js_gt diff (Fin 0) then Increasing else Decreasing)"

record summary =
  overallHealth :: health
  score :: jsnum
  keyIssues :: "string list"
  recommendations :: "string list"

record trends =
  trend_cpu :: trend
  trend_memory :: trend
  trend_disk :: trend

record averages =
  avg_cpu :: jsnum
  avg_memory :: jsnum
  avg_disk :: jsnum

record analysis =
  an_summary :: summary
  an_trends :: trends
  an_averages :: averages

text \<open>\<^verbatim>\<open>getAnalysis\<close>; \<open>None\<close> is the \<^verbatim>\<open>null\<close> of an empty store.\<close>

definition getAnalysis :: "SystemMonitor \<Rightarrow> analysis option" where
  "getAnalysis st =
     (if length (metrics st) = 0 then None
      else
        let recentMetrics = slice_last 10 (metrics st);
            cpuValues = map (\<lambda>m. cpu_usage (cpu m)) recentMetrics;
            memoryValues = map (\<lambda>m. mem_usage (memory m)) recentMetrics;
            diskValues = map (\<lambda>m. disk_usage (disk m)) recentMetrics
        in Some \<lparr>
             an_summary = \<lparr>overallHealth = calculateOverallHealth st,
                           score = calculateHealthScore st,
                           keyIssues = identifyKeyIssues st,
                           recommendations = generateRecommendations st\<rparr>,
             an_trends = \<lparr>trend_cpu = calculateTrend cpuValues,
                          trend_memory = calculateTrend memoryValues,
                          trend_disk = calculateTrend diskValues\<rparr>,
             an_averages = \<lparr>avg_cpu = fl_div (fl_sum cpuValues) (Fin (of_nat (length cpuValues))),
                            avg_memory = fl_div (fl_sum memoryValues)
                                           (Fin (of_nat (length memoryValues))),
                            avg_disk = fl_div (fl_sum diskValues)
                                         (Fin (of_nat (length diskValues)))\<rparr>\<rparr>)"

section \<open>Health check\<close>

record components =
  comp_systemMonitor :: health
  comp_cpu :: health
  comp_memory :: health
  comp_disk :: health
  comp_network :: health

record health_metrics =
  hm_uptime :: int
  hm_metricsCollected :: nat
  hm_alertsGenerated :: nat
  hm_lastMetricTime :: "int option"

record HealthStatus =
  hs_status :: health
  hs_components :: components
  hs_metrics :: health_metrics
  hs_timestamp :: int

text \<open>\<^verbatim>\<open>this.metrics.slice(-1)[0]\<close>: the last snapshot, \<^verbatim>\<open>undefined\<close> when there is none.\<close>

definition lastMetric :: "SystemMonitor \<Rightarrow> SystemMetrics option" where
  "lastMetric st = (case slice_last 1 (metrics st) of [] \<Rightarrow> None | m # _ \<Rightarrow> Some m)"

definition component_values :: "components \<Rightarrow> health list" where
  "component_values c =
     [comp_systemMonitor c, comp_cpu c, comp_memory c, comp_disk c, comp_network c]"

definition healthCheck :: "int \<Rightarrow> SystemMonitor \<Rightarrow> HealthStatus" where
  "healthCheck now st =
     (let health = \<lparr>
            hs_status = Healthy,
            hs_components = \<lparr>
              comp_systemMonitor = (if isRunning st then Healthy else Unhealthy),
              comp_cpu = Healthy, comp_memory = Healthy, comp_disk = Healthy,
              comp_network = Healthy\<rparr>,
            hs_metrics = \<lparr>
              hm_uptime = (if isRunning st then now - startTime st else 0),
              hm_metricsCollected = length (metrics st),
              hm_alertsGenerated = length (alerts st),
              hm_lastMetricTime = map_option timestamp (lastMetric st)\<rparr>,
            hs_timestamp = now\<rparr>
      in case lastMetric st of
           None \<Rightarrow> health
         | Some m \<Rightarrow>
             let c = (hs_components health)\<lparr>
                   comp_cpu := (if js_ge (cpu_usage (cpu m)) (Fin 90) then Unhealthy
                                else if js_ge (cpu_usage (cpu m)) (Fin 80) then Degraded
                                else Healthy),
                   comp_memory := (if js_ge (mem_usage (memory m)) (Fin 95) then Unhealthy
                                   else if js_ge (mem_usage (memory m)) (Fin 85) then Degraded
                                   else Healthy),
                   comp_disk := (if js_ge (disk_usage (disk m)) (Fin 95) then Unhealthy
                                 else if js_ge (disk_usage (disk m)) (Fin 85) then Degraded
                                 else Healthy)\<rparr>
             in health\<lparr>hs_components := c,
                  hs_status := (if Unhealthy \<in> set (component_values c) then Unhealthy
                                else if Degraded \<in> set (component_values c) then Degraded
                                else Healthy)\<rparr>)"

section \<open>Vocabulary of the specification\<close>





text \<open>The threshold of a severity, and the order \<open>warning < critical < emergency\<close>.\<close>

fun threshold_of :: "thresholds \<Rightarrow> severity \<Rightarrow> jsnum" where
  "threshold_of t Warning = warning t"
| "threshold_of t Critical = critical t"
| "threshold_of t Emergency = emergency t"

fun severity_rank :: "severity \<Rightarrow> nat" where
  "severity_rank Warning = 0"
| "severity_rank Critical = 1"
| "severity_rank Emergency = 2"

text \<open>
  The families the evaluator looks at, each with the name it gives the alert, its
  configuration and its usage in the snapshot.
\<close>

definition alert_families ::
  "SystemMonitorConfig \<Rightarrow> SystemMetrics \<Rightarrow> (string \<times> family_config \<times> jsnum) list" where
  "alert_families cfg m =
     [(''cpu'', cfg_cpu (cfg_metrics cfg), cpu_usage (cpu m)),
      (''memory'', cfg_memory (cfg_metrics cfg), mem_usage (memory m)),
      (''disk'', cfg_disk (cfg_metrics cfg), disk_usage (disk m))]"

section \<open>Example inputs\<close>

text \<open>The provider of the repository's test suite: a quiet host.\<close>

definition idle_provider :: provider where
  "idle_provider = \<lparr>
     p_currentLoad = Inr \<lparr>currentLoad = Fin (51 / 2), cpus = [Fin (51 / 2)],
                          loadavg = Some [Fin (6 / 5), Fin (3 / 2), Fin (9 / 5)]\<rparr>,
     p_cpuCurrentSpeed = Inr (),
     p_cpuTemperature = Inr (Fin (226 / 5)),
     p_mem = Inr \<lparr>si_total = Fin 8589934592, si_used = Fin 4294967296,
                  si_free = Fin 4294967296, si_available = Fin 4294967296\<rparr>,
     p_fsSize = Inr [\<lparr>fs_mount = ''/'', fs_size = Fin 100000000000,
                      fs_used = Fin 50000000000, fs_available = Fin 50000000000\<rparr>],
     p_networkStats = Inr [\<lparr>iface = ''eth0'', rx_bytes = Fin 1000000, tx_bytes = Fin 500000,
                            rx_sec = Fin 1000, tx_sec = Fin 500\<rparr>]\<rparr>"

text \<open>The same host with a load call that rejects.\<close>

definition failing_cpu_provider :: provider where
  "failing_cpu_provider = idle_provider\<lparr>p_currentLoad := Inl ''Error: System call failed''\<rparr>"

text \<open>A provider that reports no memory and one filesystem of size zero.\<close>

definition empty_host_provider :: provider where
  "empty_host_provider = \<lparr>
     p_currentLoad = Inr \<lparr>currentLoad = Fin 0, cpus = [], loadavg = None\<rparr>,
     p_cpuCurrentSpeed = Inr (),
     p_cpuTemperature = Inl ''unsupported'',
     p_mem = Inr \<lparr>si_total = Fin 0, si_used = Fin 0, si_free = Fin 0, si_available = Fin 0\<rparr>,
     p_fsSize = Inr [\<lparr>fs_mount = ''/'', fs_size = Fin 0, fs_used = Fin 0,
                      fs_available = Fin 0\<rparr>],
     p_networkStats = Inr []\<rparr>"

text \<open>A snapshot with the given timestamp and usages, all else zero.\<close>

definition snapshot_with :: "int \<Rightarrow> jsnum \<Rightarrow> jsnum \<Rightarrow> jsnum \<Rightarrow> SystemMetrics" where
  "snapshot_with t c m d = \<lparr>timestamp = t, cpu = zero_cpu\<lparr>cpu_usage := c\<rparr>,
     memory = zero_memory\<lparr>mem_usage := m\<rparr>, disk = zero_disk\<lparr>disk_usage := d\<rparr>,
     network = zero_network\<rparr>"

definition hot_snapshot :: SystemMetrics where
  "hot_snapshot = snapshot_with 1000 (Fin 90) (Fin 50) (Fin 50)"

definition flooded_snapshot :: SystemMetrics where
  "flooded_snapshot = hot_snapshot\<lparr>network := \<lparr>interfaces =
     [\<lparr>if_name = ''eth0'', bytesReceived = Fin 1000000, bytesSent = Fin 500000,
       packetsReceived = Fin 9000, packetsSent = Fin 9000\<rparr>]\<rparr>\<rparr>"

text \<open>A monitor created and started, and the same with an \<^verbatim>\<open>error\<close> listener registered.\<close>

definition running_monitor :: SystemMonitor where
  "running_monitor = (new_monitor defaultConfig)\<lparr>isRunning := True, intervalId := True,
     startTime := 900\<rparr>"

definition listening_monitor :: SystemMonitor where
  "listening_monitor = on_error running_monitor"

definition first_tick :: tick_clock where
  "first_tick = \<lparr>t_stamp = 1000, t_cut_metrics = 1001, t_cut_alerts = 1001, t_alert = 1002\<rparr>"




text \<open>The monitor after one tick on the host that reports no memory.\<close>

definition empty_host_monitor :: SystemMonitor where
  "empty_host_monitor = snd (snd (collectMetrics first_tick empty_host_provider running_monitor))"


section \<open>Arithmetic on finite numbers\<close>






section \<open>Rounding to a double\<close>


lemma pow2_add: "pow2 (a + b) = pow2 a * pow2 b"
proof -
  have "pow2 k = 2 powi k" for k
    by (simp add: pow2_def power_int_def inverse_eq_divide power_one_over)
  then show ?thesis by (simp add: power_int_add)
qed

lemma pow2_Suc: "pow2 (k + 1) = pow2 k * 2"
  using pow2_add [of k 1] by (simp add: pow2_def)



lemma pow2_Suc1: "pow2 (1 + k) = pow2 k * 2"
  using pow2_Suc [of k] by (simp add: add.commute)











text \<open>
  The product \<^verbatim>\<open>(23 / 40) * 100\<close> is \<open>57.49999999999999\<close> in doubles and rounds to 57,
  where the exact value \<open>57.5\<close> rounds to 58.
\<close>

lemma percent_rounds_down:
  "js_round (fl_mul (fl_div (Fin 23) (Fin 40)) (Fin 100)) = Fin 57
   \<and> js_round (js_mul (js_div (Fin 23) (Fin 40)) (Fin 100)) = Fin 58"
  by code_simp

section \<open>Usage percent of memory and disk\<close>

text \<open>
  Claim C1. For memory, aggregate disk and per-device disk the usage percent lies in
  \<open>[0, 100]\<close>, is \<open>round(used / total \<times> 100)\<close> when the total is positive, and is 0 when
  the total is 0, the division being guarded.

  The two disk computations are guarded (\<^verbatim>\<open>totalSize > 0 ? ... : 0\<close>,
  \<^verbatim>\<open>fs.size > 0 ? ... : 0\<close>); the memory computation divides unguarded. For a provider that
  reports a memory total of 0 (and 0 used) the memory getter returns the usage \<^verbatim>\<open>NaN\<close>,
  not 0, where on a filesystem of size 0 both disk usages are 0.
\<close>

theorem memory_usage_zero_total:
  "(\<exists>m. getMemoryMetrics (new_monitor defaultConfig) empty_host_provider = Inr (m, [])
        \<and> mem_usage m = NaN \<and> mem_total m = Fin 0)
   \<and> (\<exists>d. getDiskMetrics (new_monitor defaultConfig) empty_host_provider = Inr (d, [])
        \<and> disk_usage d = Fin 0 \<and> map dev_usage (disk_devices d) = [Fin 0])"
  by (simp add: getMemoryMetrics_def getDiskMetrics_def disk_device_of_def new_monitor_def
      defaultConfig_def empty_host_provider_def fl_sum_def fl_add_def fl_div_def fl_mul_def
      double_of_def js_gt_def Let_def)

section \<open>Alert evaluator\<close>

lemma family_alerts_metric: "a \<in> set (family_alerts now f fc u) \<Longrightarrow> alert_metric a = f"
  by (auto simp: family_alerts_def createAlert_def split: if_splits)

lemma family_alerts_length: "length (family_alerts now f fc u) \<le> Suc 0"
  by (simp add: family_alerts_def)

lemma filter_family_alerts:
  "filter (\<lambda>a. alert_metric a = g) (family_alerts now f fc u)
     = (if g = f then family_alerts now f fc u else [])"
  by (auto simp: family_alerts_def createAlert_def)

lemma new_alerts_of_family:
  assumes "(f, fc, u) \<in> set (alert_families cfg m)"
  shows "filter (\<lambda>a. alert_metric a = f) (new_alerts cfg now m) = family_alerts now f fc u"
  using assms by (auto simp: alert_families_def new_alerts_def filter_family_alerts)

lemma above_warning: "0 < severity_rank s \<longleftrightarrow> s = Critical \<or> s = Emergency"
  by (cases s) simp_all

lemma above_critical: "Suc 0 < severity_rank s \<longleftrightarrow> s = Emergency"
  by (cases s) simp_all

lemma above_emergency: "\<not> 2 < severity_rank s"
  by (cases s) simp_all

text \<open>The chain yields nothing, or one alert of the highest severity whose threshold is met.\<close>

lemma family_alerts_cases:
  "family_alerts now f fc u = [] \<or>
   (\<exists>s. family_alerts now f fc u = [createAlert now f u (threshold_of (fam_thresholds fc) s) s]
        \<and> fam_enabled fc
        \<and> js_ge u (threshold_of (fam_thresholds fc) s)
        \<and> (\<forall>s'. severity_rank s < severity_rank s' \<longrightarrow>
               \<not> js_ge u (threshold_of (fam_thresholds fc) s')))"
proof -
  let ?t = "fam_thresholds fc"
  consider (off) "\<not> fam_enabled fc"
    | (e) "fam_enabled fc" "js_ge u (emergency ?t)"
    | (c) "fam_enabled fc" "\<not> js_ge u (emergency ?t)" "js_ge u (critical ?t)"
    | (w) "fam_enabled fc" "\<not> js_ge u (emergency ?t)" "\<not> js_ge u (critical ?t)"
          "js_ge u (warning ?t)"
    | (n) "fam_enabled fc" "\<not> js_ge u (emergency ?t)" "\<not> js_ge u (critical ?t)"
          "\<not> js_ge u (warning ?t)"
    by blast
  then show ?thesis
  proof cases
    case off
    then show ?thesis by (simp add: family_alerts_def)
  next
    case e
    then show ?thesis
      by (intro disjI2 exI[of _ Emergency]) (simp add: family_alerts_def above_emergency)
  next
    case c
    then show ?thesis
      by (intro disjI2 exI[of _ Critical]) (simp add: family_alerts_def above_critical)
  next
    case w
    then show ?thesis
      by (intro disjI2 exI[of _ Warning]) (auto simp: family_alerts_def above_warning)
  next
    case n
    then show ?thesis by (simp add: family_alerts_def)
  qed
qed

text \<open>What one evaluation appends to the alert list and emits is \<open>new_alerts\<close>.\<close>

lemma checkAlerts_new_alerts:
  "fst (checkAlerts now m st) = map EvAlert (new_alerts (config st) now m)"
  "alerts (snd (checkAlerts now m st)) = alerts st @ new_alerts (config st) now m"
  by (simp_all add: checkAlerts_def Let_def)

text \<open>
  Claim C2. For every snapshot and configuration, the alerts that one evaluation appends
  under any one metric name \<open>g\<close> are at most one. For each family the evaluator looks at,
  with \<open>as\<close> the alerts appended under the family's name: such an alert records the usage and the threshold of its severity, the usage meets that
  threshold (\<open>\<ge>\<close>, inclusive), and meets the threshold of no higher severity; when the
  usage meets no threshold there is no alert for the family, and when the family is
  enabled and some threshold is met there is exactly one.
\<close>

theorem one_alert_per_family:
  assumes "(f, fc, u) \<in> set (alert_families (config st) m)"
    and "as = filter (\<lambda>a. alert_metric a = f)
                (drop (length (alerts st)) (alerts (snd (checkAlerts now m st))))"
  shows "length (filter (\<lambda>a. alert_metric a = g)
                   (drop (length (alerts st)) (alerts (snd (checkAlerts now m st))))) \<le> 1
       \<and> length as \<le> 1
       \<and> (\<forall>a \<in> set as.
             alert_value a = u
           \<and> alert_threshold a = threshold_of (fam_thresholds fc) (alert_severity a)
           \<and> js_ge u (threshold_of (fam_thresholds fc) (alert_severity a))
           \<and> (\<forall>s. severity_rank (alert_severity a) < severity_rank s \<longrightarrow>
                  \<not> js_ge u (threshold_of (fam_thresholds fc) s)))
       \<and> ((\<forall>s. \<not> js_ge u (threshold_of (fam_thresholds fc) s)) \<longrightarrow> as = [])
       \<and> (fam_enabled fc \<and> (\<exists>s. js_ge u (threshold_of (fam_thresholds fc) s))
            \<longrightarrow> length as = 1)"
proof -
  have g: "length (filter (\<lambda>a. alert_metric a = g)
                   (drop (length (alerts st)) (alerts (snd (checkAlerts now m st))))) \<le> 1"
    by (simp add: checkAlerts_new_alerts new_alerts_def filter_family_alerts
        family_alerts_length)
  have "as = filter (\<lambda>a. alert_metric a = f) (new_alerts (config st) now m)"
    using assms(2) by (simp add: checkAlerts_new_alerts)
  then have as: "as = family_alerts now f fc u"
    using assms(1) new_alerts_of_family by simp
  consider (none) "family_alerts now f fc u = []"
    | (one) s where "family_alerts now f fc u
                       = [createAlert now f u (threshold_of (fam_thresholds fc) s) s]"
        "js_ge u (threshold_of (fam_thresholds fc) s)"
        "\<forall>s'. severity_rank s < severity_rank s' \<longrightarrow>
               \<not> js_ge u (threshold_of (fam_thresholds fc) s')"
    using family_alerts_cases [of now f fc u] by blast
  then show ?thesis
  proof cases
    case none
    have "\<not> (fam_enabled fc \<and> (\<exists>s. js_ge u (threshold_of (fam_thresholds fc) s)))"
    proof
      assume h: "fam_enabled fc \<and> (\<exists>s. js_ge u (threshold_of (fam_thresholds fc) s))"
      then obtain s where s: "js_ge u (threshold_of (fam_thresholds fc) s)" by blast
      from none h s show False
        by (cases s) (auto simp: family_alerts_def split: if_splits)
    qed
    with none as g show ?thesis by simp
  next
    case one
    with as g show ?thesis by (auto simp: createAlert_def)
  qed
qed

text \<open>
  The scenario of the specification: a CPU usage of 90 under the default thresholds
  70/85/95 gives one critical alert; a usage of exactly 95 gives an emergency alert.
\<close>

theorem one_alert_per_family_witness:
  "(''cpu'', cfg_cpu (cfg_metrics (config running_monitor)), Fin 90)
     \<in> set (alert_families (config running_monitor) hot_snapshot)
   \<and> filter (\<lambda>a. alert_metric a = ''cpu'')
        (drop (length (alerts running_monitor))
           (alerts (snd (checkAlerts 1002 hot_snapshot running_monitor))))
       = [createAlert 1002 ''cpu'' (Fin 90) (Fin 85) Critical]
   \<and> alerts (snd (checkAlerts 1002 (snapshot_with 1000 (Fin 95) (Fin 50) (Fin 50))
                     running_monitor))
       = [createAlert 1002 ''cpu'' (Fin 95) (Fin 95) Emergency]"
proof -
  have h: "(''cpu'', cfg_cpu (cfg_metrics (config running_monitor)), Fin 90)
             \<in> set (alert_families (config running_monitor) hot_snapshot)"
    by (simp add: alert_families_def hot_snapshot_def snapshot_with_def zero_cpu_def)
  note t = one_alert_per_family [OF h refl, of "''network''" 1002]
  have e: "filter (\<lambda>a. alert_metric a = ''cpu'')
        (drop (length (alerts running_monitor))
           (alerts (snd (checkAlerts 1002 hot_snapshot running_monitor))))
       = [createAlert 1002 ''cpu'' (Fin 90) (Fin 85) Critical]"
    by (simp add: checkAlerts_new_alerts running_monitor_def new_monitor_def
        defaultConfig_def hot_snapshot_def snapshot_with_def new_alerts_def
        family_alerts_def createAlert_def zero_cpu_def zero_memory_def zero_disk_def js_ge_def)
  have b: "alerts (snd (checkAlerts 1002 (snapshot_with 1000 (Fin 95) (Fin 50) (Fin 50))
                     running_monitor))
       = [createAlert 1002 ''cpu'' (Fin 95) (Fin 95) Emergency]"
    by (simp add: checkAlerts_new_alerts running_monitor_def new_monitor_def
        defaultConfig_def snapshot_with_def new_alerts_def
        family_alerts_def createAlert_def zero_cpu_def zero_memory_def zero_disk_def js_ge_def)
  from h t e b show ?thesis by simp
qed

text \<open>
  Claim C10. For every snapshot and configuration, every alert an evaluation produces
  (appends to the alert list, emits as an event) has the metric \<open>cpu\<close>, \<open>memory\<close> or
  \<open>disk\<close>; none has the metric \<open>network\<close>, whatever the network family's configuration
  and the traffic in the snapshot.
\<close>

theorem alerts_only_cpu_memory_disk:
  "fst (checkAlerts now m st) = map EvAlert (new_alerts (config st) now m)
   \<and> alerts (snd (checkAlerts now m st)) = alerts st @ new_alerts (config st) now m
   \<and> (\<forall>a \<in> set (new_alerts (config st) now m).
         alert_metric a \<in> {''cpu'', ''memory'', ''disk''} \<and> alert_metric a \<noteq> ''network'')"
proof (intro conjI ballI)
  show "fst (checkAlerts now m st) = map EvAlert (new_alerts (config st) now m)"
    by (simp add: checkAlerts_def Let_def)
  show "alerts (snd (checkAlerts now m st)) = alerts st @ new_alerts (config st) now m"
    by (simp add: checkAlerts_def Let_def)
next
  fix a assume "a \<in> set (new_alerts (config st) now m)"
  then have "alert_metric a = ''cpu'' \<or> alert_metric a = ''memory'' \<or> alert_metric a = ''disk''"
    by (auto simp: new_alerts_def dest: family_alerts_metric)
  then show "alert_metric a \<in> {''cpu'', ''memory'', ''disk''}" by blast
  then show "alert_metric a \<noteq> ''network''" by auto
qed

text \<open>
  Under the default configuration (network enabled, thresholds 1000/2000/5000) a snapshot
  with a CPU usage of 90 and an interface rate of 9000 raises the CPU alert only.
\<close>

theorem alerts_only_cpu_memory_disk_witness:
  "fam_enabled (cfg_network (cfg_metrics (config running_monitor)))
   \<and> emergency (fam_thresholds (cfg_network (cfg_metrics (config running_monitor)))) = Fin 5000
   \<and> map packetsReceived (interfaces (network flooded_snapshot)) = [Fin 9000]
   \<and> map alert_metric (alerts (snd (checkAlerts 1002 flooded_snapshot running_monitor)))
       = [''cpu'']"
  using alerts_only_cpu_memory_disk [of 1002 flooded_snapshot running_monitor]
  by (simp add: running_monitor_def new_monitor_def defaultConfig_def flooded_snapshot_def
      hot_snapshot_def snapshot_with_def new_alerts_def family_alerts_def createAlert_def
      zero_cpu_def zero_memory_def zero_disk_def js_ge_def)

section \<open>Metric store\<close>

lemma getMetrics_subseq: "subseq (getMetrics st r) (metrics st)"
  by (cases r) (simp_all add: getMetrics_def)

text \<open>
  Claim C3. For every store state, \<^verbatim>\<open>getMetrics\<close> without a range returns all retained
  snapshots in insertion order; with a range \<open>[from, to]\<close> it returns exactly the snapshots
  with \<open>from \<le> timestamp \<le> to\<close>, both ends included, in the stored order; any result is a
  subsequence of the store.
\<close>

theorem getMetrics_range:
  "getMetrics st None = metrics st
   \<and> getMetrics st (Some \<lparr>range_from = Fin a, range_to = Fin b\<rparr>)
       = filter (\<lambda>m. a \<le> of_int (timestamp m) \<and> of_int (timestamp m) \<le> b) (metrics st)
   \<and> subseq (getMetrics st r) (metrics st)"
proof (intro conjI)
  show "getMetrics st None = metrics st"
    by (simp add: getMetrics_def)
  show "getMetrics st (Some \<lparr>range_from = Fin a, range_to = Fin b\<rparr>)
       = filter (\<lambda>m. a \<le> of_int (timestamp m) \<and> of_int (timestamp m) \<le> b) (metrics st)"
    by (simp add: getMetrics_def js_ge_def)
  show "subseq (getMetrics st r) (metrics st)"
    by (rule getMetrics_subseq)
qed






section \<open>Analyzer\<close>

text \<open>
  Claim C5. The analyzer returns none when the store is empty; otherwise the overall
  health is decided by the thresholds on the per-family averages of the 5-snapshot
  window, and the health score is \<open>round((cpuScore + memoryScore + diskScore) / 3)\<close> with
  each family score \<open>max(0, 100 - avgUsage)\<close>, and lies in \<open>[0, 100]\<close>.

  A monitor started on a host whose provider reports a memory total of 0 stores, on its
  first tick, a snapshot whose memory usage is \<^verbatim>\<open>NaN\<close> (the unguarded division of
  \<^verbatim>\<open>getMemoryMetrics\<close>). The average memory usage of the window is then \<^verbatim>\<open>NaN\<close>, and so
  is the score of the analysis, where a number in \<open>[0, 100]\<close> is claimed; every threshold
  comparison on the memory average is false, and the health is reported \<open>healthy\<close>.
\<close>

theorem analysis_score_not_a_number:
  "snd (start 900 empty_host_provider (new_monitor defaultConfig)) = running_monitor
   \<and> fst (collectMetrics first_tick empty_host_provider running_monitor) = Inr ()
   \<and> map (\<lambda>m. cpu_usage (cpu m)) (metrics empty_host_monitor) = [Fin 0]
   \<and> map (\<lambda>m. mem_usage (memory m)) (metrics empty_host_monitor) = [NaN]
   \<and> map (\<lambda>m. disk_usage (disk m)) (metrics empty_host_monitor) = [Fin 0]
   \<and> avgMemory (slice_last 5 (metrics empty_host_monitor)) = NaN
   \<and> map_option (\<lambda>a. score (an_summary a)) (getAnalysis empty_host_monitor) = Some NaN
   \<and> map_option (\<lambda>a. overallHealth (an_summary a)) (getAnalysis empty_host_monitor)
       = Some Healthy"
  by code_simp











section \<open>Collection\<close>

text \<open>
  With an \<^verbatim>\<open>error\<close> listener registered every getter returns: the zero-value record for
  a disabled family or a failing call, with the error event in the second case.
\<close>

lemma getCpuMetrics_listening:
  assumes "errorListener st" and "cfg = cfg_metrics (config st)"
  shows "\<exists>c e. getCpuMetrics st p = Inr (c, e)
       \<and> (\<not> fam_enabled (cfg_cpu cfg) \<or> isl (p_currentLoad p) \<or> isl (p_cpuCurrentSpeed p)
            \<longrightarrow> c = zero_cpu)
       \<and> (fam_enabled (cfg_cpu cfg) \<and> (isl (p_currentLoad p) \<or> isl (p_cpuCurrentSpeed p))
            \<longrightarrow> (\<exists>x. EvError (''Failed to get CPU metrics: '' @ x) \<in> set e))"
  using assms
  by (auto simp: getCpuMetrics_def fallback_def emit_error_def isl_def split: sum.splits)

lemma getMemoryMetrics_listening:
  assumes "errorListener st" and "cfg = cfg_metrics (config st)"
  shows "\<exists>m e. getMemoryMetrics st p = Inr (m, e)
       \<and> (\<not> fam_enabled (cfg_memory cfg) \<or> isl (p_mem p) \<longrightarrow> m = zero_memory)
       \<and> (fam_enabled (cfg_memory cfg) \<and> isl (p_mem p)
            \<longrightarrow> (\<exists>x. EvError (''Failed to get memory metrics: '' @ x) \<in> set e))"
  using assms
  by (auto simp: getMemoryMetrics_def fallback_def emit_error_def isl_def split: sum.splits)

lemma getDiskMetrics_listening:
  assumes "errorListener st" and "cfg = cfg_metrics (config st)"
  shows "\<exists>d e. getDiskMetrics st p = Inr (d, e)
       \<and> (\<not> fam_enabled (cfg_disk cfg) \<or> isl (p_fsSize p) \<longrightarrow> d = zero_disk)
       \<and> (fam_enabled (cfg_disk cfg) \<and> isl (p_fsSize p)
            \<longrightarrow> (\<exists>x. EvError (''Failed to get disk metrics: '' @ x) \<in> set e))"
  using assms
  by (auto simp: getDiskMetrics_def fallback_def emit_error_def isl_def Let_def
      split: sum.splits)

lemma getNetworkMetrics_listening:
  assumes "errorListener st" and "cfg = cfg_metrics (config st)"
  shows "\<exists>n e st1. getNetworkMetrics p st = (Inr (n, e), st1)
       \<and> (\<not> fam_enabled (cfg_network cfg) \<or> isl (p_networkStats p) \<longrightarrow> n = zero_network)
       \<and> (fam_enabled (cfg_network cfg) \<and> isl (p_networkStats p)
            \<longrightarrow> (\<exists>x. EvError (''Failed to get network metrics: '' @ x) \<in> set e))"
  using assms
  by (auto simp: getNetworkMetrics_def fallback_def emit_error_def isl_def split: sum.splits)

text \<open>The network getter changes \<^verbatim>\<open>lastNetworkStats\<close> only.\<close>

lemma getNetworkMetrics_state:
  assumes "getNetworkMetrics p st = (r, st1)"
  shows "isRunning st1 = isRunning st \<and> config st1 = config st \<and> metrics st1 = metrics st
       \<and> alerts st1 = alerts st \<and> errorListener st1 = errorListener st"
  using assms by (auto simp: getNetworkMetrics_def split: if_splits sum.splits)

text \<open>A tick whose four getters return: the events it emits, in order.\<close>

lemma collectMetrics_returns:
  assumes "isRunning st"
    and "getCpuMetrics st p = Inr (c, e\<^sub>c)" and "getMemoryMetrics st p = Inr (m, e\<^sub>m)"
    and "getDiskMetrics st p = Inr (d, e\<^sub>d)" and "getNetworkMetrics p st = (Inr (n, e\<^sub>n), st1)"
    and "snap = \<lparr>timestamp = t_stamp clk, cpu = c, memory = m, disk = d, network = n\<rparr>"
  shows "\<exists>e\<^sub>a st'. collectMetrics clk p st
             = (Inr (), e\<^sub>c @ e\<^sub>m @ e\<^sub>d @ e\<^sub>n @ e\<^sub>a @ [EvMetrics snap, EvMetricsCollected snap], st')
           \<and> isRunning st'"
  using assms(1) getNetworkMetrics_state [OF assms(5)]
  by (simp add: collectMetrics_def assms(2-6) Let_def split_beta cleanupOldMetrics_def
      checkAlerts_def)

text \<open>A tick never changes the running flag.\<close>

lemma catch_emit_state: "snd (snd (catch_emit st evs e)) = st"
  by (simp add: catch_emit_def split: sum.splits)

lemma collectMetrics_isRunning:
  "isRunning (snd (snd (collectMetrics clk p st))) = isRunning st"
proof -
  obtain r st1 where n: "getNetworkMetrics p st = (r, st1)" by (cases "getNetworkMetrics p st")
  note s = getNetworkMetrics_state [OF n]
  show ?thesis
    using s
    by (simp add: collectMetrics_def n catch_emit_state Let_def split_beta
        cleanupOldMetrics_def checkAlerts_def split: sum.splits prod.splits)
qed

text \<open>Each getter reads the outcome of its own provider calls only.\<close>

lemma getters_read_own_calls:
  "getCpuMetrics st (p\<lparr>p_mem := a, p_fsSize := b, p_networkStats := c\<rparr>) = getCpuMetrics st p"
  "getMemoryMetrics st (p\<lparr>p_currentLoad := d, p_cpuCurrentSpeed := e, p_cpuTemperature := f,
      p_fsSize := b, p_networkStats := c\<rparr>) = getMemoryMetrics st p"
  "getDiskMetrics st (p\<lparr>p_currentLoad := d, p_cpuCurrentSpeed := e, p_cpuTemperature := f,
      p_mem := a, p_networkStats := c\<rparr>) = getDiskMetrics st p"
  by (simp_all add: getCpuMetrics_def getMemoryMetrics_def getDiskMetrics_def
      split: sum.splits)

text \<open>
  Claim C7, as the code has it. On a running monitor with an \<^verbatim>\<open>error\<close> listener
  registered, a tick returns normally and emits its snapshot, stamped with the tick's
  time, whatever the provider calls return. Each family's record in the snapshot is what
  that family's getter returns: when the family is disabled, or its provider call fails,
  the record is the zero-value record (usage 0, no devices, no interfaces), the records
  of the other families being unaffected; a failing call of an enabled family also emits
  an error event naming the family; the monitor keeps running.
\<close>

theorem collect_isolates_failures:
  assumes "isRunning st" and "errorListener st"
    and "cfg = cfg_metrics (config st)"
  shows "\<exists>snap evs st' e\<^sub>c e\<^sub>m e\<^sub>d e\<^sub>n st1.
           collectMetrics clk p st = (Inr (), evs, st')
         \<and> EvMetrics snap \<in> set evs \<and> EvMetricsCollected snap \<in> set evs
         \<and> timestamp snap = t_stamp clk
         \<and> getCpuMetrics st p = Inr (cpu snap, e\<^sub>c)
         \<and> getMemoryMetrics st p = Inr (memory snap, e\<^sub>m)
         \<and> getDiskMetrics st p = Inr (disk snap, e\<^sub>d)
         \<and> getNetworkMetrics p st = (Inr (network snap, e\<^sub>n), st1)
         \<and> (\<not> fam_enabled (cfg_cpu cfg) \<or> isl (p_currentLoad p) \<or> isl (p_cpuCurrentSpeed p)
              \<longrightarrow> cpu snap = zero_cpu)
         \<and> (\<not> fam_enabled (cfg_memory cfg) \<or> isl (p_mem p) \<longrightarrow> memory snap = zero_memory)
         \<and> (\<not> fam_enabled (cfg_disk cfg) \<or> isl (p_fsSize p) \<longrightarrow> disk snap = zero_disk)
         \<and> (\<not> fam_enabled (cfg_network cfg) \<or> isl (p_networkStats p)
              \<longrightarrow> network snap = zero_network)
         \<and> (fam_enabled (cfg_cpu cfg) \<and> (isl (p_currentLoad p) \<or> isl (p_cpuCurrentSpeed p))
              \<longrightarrow> (\<exists>e. EvError (''Failed to get CPU metrics: '' @ e) \<in> set evs))
         \<and> (fam_enabled (cfg_memory cfg) \<and> isl (p_mem p)
              \<longrightarrow> (\<exists>e. EvError (''Failed to get memory metrics: '' @ e) \<in> set evs))
         \<and> (fam_enabled (cfg_disk cfg) \<and> isl (p_fsSize p)
              \<longrightarrow> (\<exists>e. EvError (''Failed to get disk metrics: '' @ e) \<in> set evs))
         \<and> (fam_enabled (cfg_network cfg) \<and> isl (p_networkStats p)
              \<longrightarrow> (\<exists>e. EvError (''Failed to get network metrics: '' @ e) \<in> set evs))
         \<and> cpu_usage zero_cpu = Fin 0 \<and> mem_usage zero_memory = Fin 0
         \<and> disk_usage zero_disk = Fin 0 \<and> disk_devices zero_disk = []
         \<and> interfaces zero_network = []
         \<and> isRunning st'"
proof -
  from getCpuMetrics_listening [OF assms(2,3), of p] obtain c e\<^sub>c where
    c: "getCpuMetrics st p = Inr (c, e\<^sub>c)"
      "\<not> fam_enabled (cfg_cpu cfg) \<or> isl (p_currentLoad p) \<or> isl (p_cpuCurrentSpeed p)
         \<longrightarrow> c = zero_cpu"
      "fam_enabled (cfg_cpu cfg) \<and> (isl (p_currentLoad p) \<or> isl (p_cpuCurrentSpeed p))
         \<longrightarrow> (\<exists>x. EvError (''Failed to get CPU metrics: '' @ x) \<in> set e\<^sub>c)"
    by blast
  from getMemoryMetrics_listening [OF assms(2,3), of p] obtain m e\<^sub>m where
    m: "getMemoryMetrics st p = Inr (m, e\<^sub>m)"
      "\<not> fam_enabled (cfg_memory cfg) \<or> isl (p_mem p) \<longrightarrow> m = zero_memory"
      "fam_enabled (cfg_memory cfg) \<and> isl (p_mem p)
         \<longrightarrow> (\<exists>x. EvError (''Failed to get memory metrics: '' @ x) \<in> set e\<^sub>m)"
    by blast
  from getDiskMetrics_listening [OF assms(2,3), of p] obtain d e\<^sub>d where
    d: "getDiskMetrics st p = Inr (d, e\<^sub>d)"
      "\<not> fam_enabled (cfg_disk cfg) \<or> isl (p_fsSize p) \<longrightarrow> d = zero_disk"
      "fam_enabled (cfg_disk cfg) \<and> isl (p_fsSize p)
         \<longrightarrow> (\<exists>x. EvError (''Failed to get disk metrics: '' @ x) \<in> set e\<^sub>d)"
    by blast
  from getNetworkMetrics_listening [OF assms(2,3), of p] obtain n e\<^sub>n st1 where
    n: "getNetworkMetrics p st = (Inr (n, e\<^sub>n), st1)"
      "\<not> fam_enabled (cfg_network cfg) \<or> isl (p_networkStats p) \<longrightarrow> n = zero_network"
      "fam_enabled (cfg_network cfg) \<and> isl (p_networkStats p)
         \<longrightarrow> (\<exists>x. EvError (''Failed to get network metrics: '' @ x) \<in> set e\<^sub>n)"
    by blast
  let ?snap = "\<lparr>timestamp = t_stamp clk, cpu = c, memory = m, disk = d, network = n\<rparr>"
  from collectMetrics_returns [OF assms(1) c(1) m(1) d(1) n(1) refl, of clk]
  obtain e\<^sub>a st' where
    t: "collectMetrics clk p st
          = (Inr (), e\<^sub>c @ e\<^sub>m @ e\<^sub>d @ e\<^sub>n @ e\<^sub>a @ [EvMetrics ?snap, EvMetricsCollected ?snap], st')"
      "isRunning st'"
    by blast
  let ?evs = "e\<^sub>c @ e\<^sub>m @ e\<^sub>d @ e\<^sub>n @ e\<^sub>a @ [EvMetrics ?snap, EvMetricsCollected ?snap]"
  have sub: "set e\<^sub>c \<subseteq> set ?evs" "set e\<^sub>m \<subseteq> set ?evs" "set e\<^sub>d \<subseteq> set ?evs" "set e\<^sub>n \<subseteq> set ?evs"
    by auto
  have inl: "EvMetrics ?snap \<in> set ?evs" "EvMetricsCollected ?snap \<in> set ?evs"
    by simp_all
  have z: "cpu_usage zero_cpu = Fin 0 \<and> mem_usage zero_memory = Fin 0
         \<and> disk_usage zero_disk = Fin 0 \<and> disk_devices zero_disk = []
         \<and> interfaces zero_network = []"
    by (simp add: zero_cpu_def zero_memory_def zero_disk_def zero_network_def)
  show ?thesis
    apply (rule exI [of _ ?snap], rule exI [of _ ?evs], rule exI [of _ st'])
    apply (rule exI [of _ e\<^sub>c], rule exI [of _ e\<^sub>m], rule exI [of _ e\<^sub>d], rule exI [of _ e\<^sub>n])
    apply (rule exI [of _ st1])
    using t c m d n z sub inl
    apply (simp only: SystemMetrics.simps)
    apply blast
    done
qed

text \<open>The usages that the getters compute on the quiet host.\<close>

lemma idle_usage:
  "js_round (fl_mul (fl_div (Fin 4294967296) (Fin 8589934592)) (Fin 100)) = Fin 50"
  "fl_add (Fin 0) (Fin 100000000000) = Fin 100000000000"
  "fl_add (Fin 0) (Fin 50000000000) = Fin 50000000000"
  "js_round (fl_mul (fl_div (Fin 50000000000) (Fin 100000000000)) (Fin 100)) = Fin 50"
  by code_simp+

text \<open>
  The quiet host with a rejecting load call, an \<^verbatim>\<open>error\<close> listener being registered: the
  tick returns, the snapshot is emitted with the zero CPU record and the memory and disk
  usages of 50, and the CPU error is emitted.
\<close>

theorem collect_isolates_failures_witness:
  "isRunning listening_monitor \<and> errorListener listening_monitor
   \<and> isl (p_currentLoad failing_cpu_provider)
   \<and> fst (collectMetrics first_tick failing_cpu_provider listening_monitor) = Inr ()
   \<and> (\<exists>snap. EvMetrics snap
               \<in> set (fst (snd (collectMetrics first_tick failing_cpu_provider
                                 listening_monitor)))
          \<and> cpu snap = zero_cpu
          \<and> mem_usage (memory snap) = Fin 50
          \<and> disk_usage (disk snap) = Fin 50)
   \<and> (\<exists>e. EvError (''Failed to get CPU metrics: '' @ e)
             \<in> set (fst (snd (collectMetrics first_tick failing_cpu_provider
                               listening_monitor))))"
proof -
  have r: "isRunning listening_monitor"
    by (simp add: listening_monitor_def on_error_def running_monitor_def)
  have l: "errorListener listening_monitor"
    by (simp add: listening_monitor_def on_error_def)
  have f: "isl (p_currentLoad failing_cpu_provider)"
    by (simp add: failing_cpu_provider_def)
  have on: "fam_enabled (cfg_cpu (cfg_metrics (config listening_monitor)))"
    by (simp add: listening_monitor_def on_error_def running_monitor_def new_monitor_def
        defaultConfig_def)
  have m: "\<exists>m. getMemoryMetrics listening_monitor failing_cpu_provider = Inr (m, [])
             \<and> mem_usage m = Fin 50"
    by (simp add: getMemoryMetrics_def listening_monitor_def on_error_def running_monitor_def
        new_monitor_def defaultConfig_def failing_cpu_provider_def idle_provider_def idle_usage)
  have d: "\<exists>d. getDiskMetrics listening_monitor failing_cpu_provider = Inr (d, [])
             \<and> disk_usage d = Fin 50"
    by (simp add: getDiskMetrics_def listening_monitor_def on_error_def running_monitor_def
        new_monitor_def defaultConfig_def failing_cpu_provider_def idle_provider_def
        fl_sum_def js_gt_def Let_def idle_usage)
  from collect_isolates_failures [OF r l refl, of first_tick failing_cpu_provider]
  obtain snap evs st' e\<^sub>m e\<^sub>d where
    "collectMetrics first_tick failing_cpu_provider listening_monitor = (Inr (), evs, st')"
    "EvMetrics snap \<in> set evs"
    "cpu snap = zero_cpu"
    "getMemoryMetrics listening_monitor failing_cpu_provider = Inr (memory snap, e\<^sub>m)"
    "getDiskMetrics listening_monitor failing_cpu_provider = Inr (disk snap, e\<^sub>d)"
    "\<exists>e. EvError (''Failed to get CPU metrics: '' @ e) \<in> set evs"
    using f on by blast
  with r l f m d show ?thesis by auto
qed

text \<open>
  The claim as the specification states it has the failure caught and the snapshot
  produced on every monitor. On a monitor created and started with no \<^verbatim>\<open>error\<close> listener,
  the \<^verbatim>\<open>emit('error', ...)\<close> in the \<^verbatim>\<open>catch\<close> block of \<^verbatim>\<open>getCpuMetrics\<close> throws; the
  \<^verbatim>\<open>catch\<close> block of \<^verbatim>\<open>collectMetrics\<close> emits again and throws again, and so does the
  timer callback. The tick rejects with the CPU error: the memory, disk and network
  getters are not called, no event is emitted and nothing is stored.
\<close>

theorem collect_aborts_without_listener:
  "snd (start 900 empty_host_provider (new_monitor defaultConfig)) = running_monitor
   \<and> isRunning running_monitor \<and> \<not> errorListener running_monitor
   \<and> p_currentLoad failing_cpu_provider = Inl ''Error: System call failed''
   \<and> collectMetrics first_tick failing_cpu_provider running_monitor
       = (Inl ''Failed to get CPU metrics: Error: System call failed'', [], running_monitor)
   \<and> interval_callback first_tick failing_cpu_provider running_monitor
       = (Inl ''Failed to get CPU metrics: Error: System call failed'', [], running_monitor)
   \<and> metrics running_monitor = []"
  by (simp add: start_def Let_def running_monitor_def new_monitor_def defaultConfig_def
      empty_host_provider_def failing_cpu_provider_def idle_provider_def collectMetrics_def
      interval_callback_def catch_emit_def getCpuMetrics_def fallback_def emit_error_def)

section \<open>Lifecycle\<close>

text \<open>
  Claim C8. \<^verbatim>\<open>start\<close> on a running monitor and \<^verbatim>\<open>stop\<close> on a stopped one change nothing in
  the state (running flag, start time, store, alerts and the rest), emit no event and in
  particular no error. The monitor is in one of two states, stopped or running: \<^verbatim>\<open>start\<close>
  leads to running, \<^verbatim>\<open>stop\<close> to stopped, and a tick leaves the state as it is.
\<close>

theorem start_stop_noop:
  assumes "isRunning r" and "\<not> isRunning s"
  shows "start now p r = ([], r)
       \<and> stop s = ([], s)
       \<and> lifecycle_of (snd (start now p s)) = Running
       \<and> lifecycle_of (snd (stop r)) = Stopped
       \<and> lifecycle_of (snd (snd (collectMetrics clk p r))) = Running
       \<and> lifecycle_of (snd (snd (collectMetrics clk p s))) = Stopped"
  using assms
  by (simp add: start_def stop_def lifecycle_of_def collectMetrics_isRunning Let_def)

theorem start_stop_noop_witness:
  "isRunning running_monitor \<and> \<not> isRunning (new_monitor defaultConfig)
   \<and> start 5000 idle_provider running_monitor = ([], running_monitor)
   \<and> stop (new_monitor defaultConfig) = ([], new_monitor defaultConfig)
   \<and> lifecycle_of (snd (start 5000 idle_provider (new_monitor defaultConfig))) = Running"
proof -
  have r: "isRunning running_monitor" by (simp add: running_monitor_def)
  have s: "\<not> isRunning (new_monitor defaultConfig)" by (simp add: new_monitor_def)
  from start_stop_noop [OF r s, of 5000 idle_provider] r s show ?thesis by simp
qed

section \<open>Health check before start\<close>

text \<open>
  Claim C9. A monitor that is not running and holds no snapshot (as it is before
  \<^verbatim>\<open>start\<close>) reports the overall status \<open>healthy\<close>, the \<open>systemMonitor\<close> component
  \<open>unhealthy\<close>, and the cpu, memory, disk and network components \<open>healthy\<close>.
\<close>

theorem healthCheck_before_start:
  assumes "\<not> isRunning st" and "metrics st = []"
  shows "hs_status (healthCheck now st) = Healthy
       \<and> comp_systemMonitor (hs_components (healthCheck now st)) = Unhealthy
       \<and> comp_cpu (hs_components (healthCheck now st)) = Healthy
       \<and> comp_memory (hs_components (healthCheck now st)) = Healthy
       \<and> comp_disk (hs_components (healthCheck now st)) = Healthy
       \<and> comp_network (hs_components (healthCheck now st)) = Healthy"
  using assms by (simp add: healthCheck_def lastMetric_def slice_last_def)

theorem healthCheck_before_start_witness:
  "\<not> isRunning (new_monitor defaultConfig) \<and> metrics (new_monitor defaultConfig) = []
   \<and> hs_status (healthCheck 1730000000000 (new_monitor defaultConfig)) = Healthy
   \<and> comp_systemMonitor (hs_components (healthCheck 1730000000000 (new_monitor defaultConfig)))
       = Unhealthy"
proof -
  have a: "\<not> isRunning (new_monitor defaultConfig)" by (simp add: new_monitor_def)
  have b: "metrics (new_monitor defaultConfig) = []" by (simp add: new_monitor_def)
  show ?thesis using a b healthCheck_before_start [OF a b, of 1730000000000] by simp
qed

end
